theory Spec2Isabelle
  imports Main "HOL-Library.Word" "HOL-Library.List_Lexorder"
begin

section \<open>Python values and exceptions\<close>

text \<open>
  The embedding follows \<^verbatim>\<open>annoying/fields.py\<close> under Python 3. A \<^verbatim>\<open>str\<close> is a
  sequence of Unicode code points, a \<^verbatim>\<open>bytes\<close> a sequence of octets. A float is kept
  as the numeric literal that denotes it: IEEE arithmetic is outside the model.
  \<^verbatim>\<open>PObject\<close> stands for any other object, told apart by identity.
\<close>

type_synonym pystr = "nat list"
type_synonym pybytes = "8 word list"

datatype pyval =
    PNone
  | PBool bool
  | PInt int
  | PFloat pystr
  | PStr pystr
  | PBytes pybytes
  | PList "pyval list"
  | PDict "(pyval \<times> pyval) list"
  | PObject nat

datatype exn =
    ValueError
  | JSONDecodeError
  | UnicodeDecodeError
  | TypeError
  | AttributeError
  | DoesNotExist
  | MultipleObjectsReturned
  | IntegrityError
  | OtherError nat

text \<open>\<^verbatim>\<open>except ValueError\<close> catches the class and its subclasses.\<close>

fun is_ValueError :: "exn \<Rightarrow> bool" where
  "is_ValueError ValueError = True"
| "is_ValueError JSONDecodeError = True"
| "is_ValueError UnicodeDecodeError = True"
| "is_ValueError _ = False"

fun isinstance_str :: "pyval \<Rightarrow> bool" where
  "isinstance_str (PStr _) = True"
| "isinstance_str _ = False"

fun isinstance_bytes :: "pyval \<Rightarrow> bool" where
  "isinstance_bytes (PBytes _) = True"
| "isinstance_bytes _ = False"

fun isinstance_dict :: "pyval \<Rightarrow> bool" where
  "isinstance_dict (PDict _) = True"
| "isinstance_dict _ = False"

fun isinstance_list :: "pyval \<Rightarrow> bool" where
  "isinstance_list (PList _) = True"
| "isinstance_list _ = False"

text \<open>
  Python's \<^verbatim>\<open>==\<close>: \<^verbatim>\<open>bool\<close> is a subclass of \<^verbatim>\<open>int\<close>, lists compare
  element by element, dicts compare as mappings (the order of insertion does not count),
  a \<^verbatim>\<open>str\<close> never equals a \<^verbatim>\<open>bytes\<close>, and objects compare by identity.
\<close>

fun py_eq :: "pyval \<Rightarrow> pyval \<Rightarrow> bool" where
  "py_eq PNone PNone = True"
| "py_eq (PBool a) (PBool b) = (a = b)"
| "py_eq (PBool a) (PInt j) = ((if a then 1 else 0) = j)"
| "py_eq (PInt i) (PBool b) = (i = (if b then 1 else 0))"
| "py_eq (PInt i) (PInt j) = (i = j)"
| "py_eq (PFloat x) (PFloat y) = (x = y)"
| "py_eq (PStr s) (PStr t) = (s = t)"
| "py_eq (PBytes s) (PBytes t) = (s = t)"
| "py_eq (PList xs) (PList ys) = list_all2 py_eq xs ys"
| "py_eq (PDict a) (PDict b) =
     (length a = length b \<and>
      list_all (\<lambda>(k, v). list_ex (\<lambda>(k', v'). py_eq k k' \<and> py_eq v v') b) a)"
| "py_eq (PObject m) (PObject n) = (m = n)"
| "py_eq _ _ = False"


section \<open>Built-in \<^verbatim>\<open>bytes.decode('utf8')\<close>\<close>

text \<open>
  The strict UTF-8 decoder of Python 3: a sequence that is truncated, overlong, encodes a
  surrogate or exceeds U+10FFFF raises \<^verbatim>\<open>UnicodeDecodeError\<close>, a subclass of
  \<^verbatim>\<open>ValueError\<close>.
\<close>

definition is_continuation :: "nat \<Rightarrow> bool" where
  "is_continuation b = (0x80 \<le> b \<and> b < 0xC0)"

fun utf8_decode :: "nat list \<Rightarrow> pystr option" where
  "utf8_decode [] = Some []"
| "utf8_decode (b0 # bs) =
     (if b0 < 0x80 then map_option ((#) b0) (utf8_decode bs)
      else if 0xC2 \<le> b0 \<and> b0 < 0xE0 then
        (case bs of
           b1 # r \<Rightarrow>
             if is_continuation b1
             then map_option ((#) ((b0 - 0xC0) * 64 + (b1 - 0x80))) (utf8_decode r)
             else None
         | _ \<Rightarrow> None)
      else if 0xE0 \<le> b0 \<and> b0 < 0xF0 then
        (case bs of
           b1 # b2 # r \<Rightarrow>
             (let cp = (b0 - 0xE0) * 4096 + (b1 - 0x80) * 64 + (b2 - 0x80) in
              if is_continuation b1 \<and> is_continuation b2 \<and> 0x800 \<le> cp
                 \<and> \<not> (0xD800 \<le> cp \<and> cp < 0xE000)
              then map_option ((#) cp) (utf8_decode r)
              else None)
         | _ \<Rightarrow> None)
      else if 0xF0 \<le> b0 \<and> b0 < 0xF5 then
        (case bs of
           b1 # b2 # b3 # r \<Rightarrow>
             (let cp = (b0 - 0xF0) * 262144 + (b1 - 0x80) * 4096 + (b2 - 0x80) * 64
                       + (b3 - 0x80) in
              if is_continuation b1 \<and> is_continuation b2 \<and> is_continuation b3
                 \<and> 0x10000 \<le> cp \<and> cp < 0x110000
              then map_option ((#) cp) (utf8_decode r)
              else None)
         | _ \<Rightarrow> None)
      else None)"

definition bytes_decode_utf8 :: "pybytes \<Rightarrow> exn + pystr" where
  "bytes_decode_utf8 b =
     (case utf8_decode (map unat b) of
        None \<Rightarrow> Inl UnicodeDecodeError
      | Some s \<Rightarrow> Inr s)"

section \<open>The standard library's \<^verbatim>\<open>json\<close> module\<close>

text \<open>
  \<^verbatim>\<open>JSONField.__init__\<close> takes as default serializer
  \<^verbatim>\<open>json.dumps(value, cls=DjangoJSONEncoder, sort_keys=True, indent=2, separators=(',', ': '))\<close>
  and as default deserializer \<^verbatim>\<open>json.loads\<close>. Both are modelled after
  \<^verbatim>\<open>json/encoder.py\<close>, \<^verbatim>\<open>json/decoder.py\<close> and \<^verbatim>\<open>json/scanner.py\<close> of
  Python 3. Characters are written as their code points: 34 is the double quote, 92 the
  backslash, 44 the comma, 58 the colon, 91 and 93 the brackets, 123 and 125 the braces,
  10 the line feed and 32 the space.
\<close>

definition str :: "string \<Rightarrow> pystr" where
  "str cs = map of_char cs"

subsection \<open>Encoding\<close>

text \<open>\<^verbatim>\<open>int.__repr__\<close>: the decimal digits, most significant first.\<close>

fun digits :: "nat \<Rightarrow> pystr" where
  "digits n = (if n < 10 then [48 + n] else digits (n div 10) @ [48 + n mod 10])"

declare digits.simps [simp del]

definition int_repr :: "int \<Rightarrow> pystr" where
  "int_repr i = (if i < 0 then 45 # digits (nat (- i)) else digits (nat i))"

text \<open>
  \<^verbatim>\<open>py_encode_basestring_ascii\<close>: the backslash, the double quote and every character
  outside the printable ASCII range are escaped; a character beyond U+FFFF becomes a
  surrogate pair of two \<^verbatim>\<open>\uXXXX\<close> escapes.
\<close>

definition hex_digit :: "nat \<Rightarrow> nat" where
  "hex_digit d = (if d < 10 then 48 + d else 87 + d)"

definition u_escape :: "nat \<Rightarrow> pystr" where
  "u_escape n =
     [92, 117, hex_digit (n div 4096 mod 16), hex_digit (n div 256 mod 16),
      hex_digit (n div 16 mod 16), hex_digit (n mod 16)]"

definition escape_char :: "nat \<Rightarrow> pystr" where
  "escape_char c =
     (if c = 92 then [92, 92]
      else if c = 34 then [92, 34]
      else if c = 8 then [92, 98]
      else if c = 12 then [92, 102]
      else if c = 10 then [92, 110]
      else if c = 13 then [92, 114]
      else if c = 9 then [92, 116]
      else if 32 \<le> c \<and> c \<le> 126 then [c]
      else if c < 0x10000 then u_escape c
      else u_escape (0xD800 + (c - 0x10000) div 1024 mod 1024)
           @ u_escape (0xDC00 + (c - 0x10000) mod 1024))"

definition encode_basestring_ascii :: "pystr \<Rightarrow> pystr" where
  "encode_basestring_ascii s = 34 # concat (map escape_char s) @ [34]"

text \<open>
  The key of a dict item: a \<^verbatim>\<open>str\<close> is taken as it is, a float, a bool,
  \<^verbatim>\<open>None\<close> and an int are turned into strings, any other key raises
  \<^verbatim>\<open>TypeError\<close>.
\<close>

fun key_str :: "pyval \<Rightarrow> pystr option" where
  "key_str (PStr s) = Some s"
| "key_str (PFloat x) = Some x"
| "key_str (PBool b) = Some (if b then str ''true'' else str ''false'')"
| "key_str PNone = Some (str ''null'')"
| "key_str (PInt i) = Some (int_repr i)"
| "key_str _ = None"

text \<open>
  \<^verbatim>\<open>sorted(dct.items())\<close>: strings are ordered by code points, ints and bools by
  value; sorting keys that cannot be compared raises \<^verbatim>\<open>TypeError\<close> (floats are not
  ordered in this model). A list of at most one item is sorted without any comparison.
\<close>

fun str_key :: "pyval \<Rightarrow> pystr" where
  "str_key (PStr s) = s"
| "str_key _ = []"

fun int_key :: "pyval \<Rightarrow> int" where
  "int_key (PInt i) = i"
| "int_key (PBool b) = (if b then 1 else 0)"
| "int_key _ = 0"

fun isinstance_int :: "pyval \<Rightarrow> bool" where
  "isinstance_int (PInt _) = True"
| "isinstance_int (PBool _) = True"
| "isinstance_int _ = False"

definition sorted_items :: "(pyval \<times> 'a) list \<Rightarrow> (pyval \<times> 'a) list option" where
  "sorted_items items =
     (if length items \<le> 1 then Some items
      else if list_all (\<lambda>kv. isinstance_str (fst kv)) items
      then Some (sort_key (\<lambda>kv. str_key (fst kv)) items)
      else if list_all (\<lambda>kv. isinstance_int (fst kv)) items
      then Some (sort_key (\<lambda>kv. int_key (fst kv)) items)
      else None)"

definition newline_indent :: "nat \<Rightarrow> pystr" where
  "newline_indent level = 10 # replicate (2 * level) 32"

fun join :: "pystr \<Rightarrow> pystr list \<Rightarrow> pystr" where
  "join sep [] = []"
| "join sep [x] = x"
| "join sep (x # y # ys) = x @ sep @ join sep (y # ys)"

fun sequence :: "'a option list \<Rightarrow> 'a list option" where
  "sequence [] = Some []"
| "sequence (None # xs) = None"
| "sequence (Some x # xs) = map_option ((#) x) (sequence xs)"

text \<open>
  One item of a dict, from its key and the encoding of its value:
  \<^verbatim>\<open>"key": value\<close>, with the key separator \<^verbatim>\<open>': '\<close>.
\<close>

definition encode_item :: "pyval \<times> pystr option \<Rightarrow> pystr option" where
  "encode_item kv =
     (case key_str (fst kv) of
        None \<Rightarrow> None
      | Some k \<Rightarrow> map_option (\<lambda>e. encode_basestring_ascii k @ [58, 32] @ e) (snd kv))"

text \<open>
  \<^verbatim>\<open>_iterencode\<close> at an indentation level, with \<^verbatim>\<open>None\<close> for
  \<^verbatim>\<open>TypeError\<close>, the only exception the encoder raises. The values of a dict are
  encoded in the order of the sorted items; here each value is encoded first and the
  items are sorted then, which yields the same text. A float is written as its literal.
  \<^verbatim>\<open>DjangoJSONEncoder\<close> adds rules for dates, times, decimals and UUIDs, none of
  which is a value of this model: a \<^verbatim>\<open>bytes\<close> or another object is not serializable.
\<close>

fun iterencode :: "nat \<Rightarrow> pyval \<Rightarrow> pystr option" where
  "iterencode level (PStr s) = Some (encode_basestring_ascii s)"
| "iterencode level PNone = Some (str ''null'')"
| "iterencode level (PBool b) = Some (if b then str ''true'' else str ''false'')"
| "iterencode level (PInt i) = Some (int_repr i)"
| "iterencode level (PFloat x) = Some x"
| "iterencode level (PList xs) =
     (if xs = [] then Some (str ''[]'')
      else
        (case sequence (map (iterencode (Suc level)) xs) of
           None \<Rightarrow> None
         | Some chunks \<Rightarrow>
             Some ([91] @ newline_indent (Suc level)
                   @ join (44 # newline_indent (Suc level)) chunks
                   @ newline_indent level @ [93])))"
| "iterencode level (PDict kvs) =
     (if kvs = [] then Some (str ''{}'')
      else
        (case sorted_items (map (\<lambda>kv. (fst kv, iterencode (Suc level) (snd kv))) kvs) of
           None \<Rightarrow> None
         | Some items \<Rightarrow>
             (case sequence (map encode_item items) of
                None \<Rightarrow> None
              | Some chunks \<Rightarrow>
                  Some ([123] @ newline_indent (Suc level)
                        @ join (44 # newline_indent (Suc level)) chunks
                        @ newline_indent level @ [125]))))"
| "iterencode level (PBytes b) = None"
| "iterencode level (PObject n) = None"

definition dumps :: "pyval \<Rightarrow> exn + pyval" where
  "dumps v = (case iterencode 0 v of None \<Rightarrow> Inl TypeError | Some s \<Rightarrow> Inr (PStr s))"

subsection \<open>Decoding\<close>

text \<open>
  The decoder reads a value off the front of the text and returns it with the text that
  is left; \<^verbatim>\<open>None\<close> stands for \<^verbatim>\<open>JSONDecodeError\<close>, the only exception the
  decoder raises on a \<^verbatim>\<open>str\<close>. Whitespace is space, tab, line feed and carriage
  return.
\<close>

definition is_ws :: "nat \<Rightarrow> bool" where
  "is_ws c = (c = 32 \<or> c = 9 \<or> c = 10 \<or> c = 13)"

definition skip_ws :: "pystr \<Rightarrow> pystr" where
  "skip_ws s = dropWhile is_ws s"

definition is_digit :: "nat \<Rightarrow> bool" where
  "is_digit c = (48 \<le> c \<and> c \<le> 57)"

definition hex_value :: "nat \<Rightarrow> nat option" where
  "hex_value c =
     (if 48 \<le> c \<and> c \<le> 57 then Some (c - 48)
      else if 97 \<le> c \<and> c \<le> 102 then Some (c - 87)
      else if 65 \<le> c \<and> c \<le> 70 then Some (c - 55)
      else None)"

text \<open>\<^verbatim>\<open>_decode_uXXXX\<close>: the four hexadecimal digits after \<^verbatim>\<open>\u\<close>.\<close>

definition decode_uXXXX :: "pystr \<Rightarrow> nat option" where
  "decode_uXXXX s =
     (case s of
        a # b # c # d # r \<Rightarrow>
          (case (hex_value a, hex_value b, hex_value c, hex_value d) of
             (Some x3, Some x2, Some x1, Some x0) \<Rightarrow>
               Some (x3 * 4096 + x2 * 256 + x1 * 16 + x0)
           | _ \<Rightarrow> None)
      | _ \<Rightarrow> None)"

text \<open>The table \<^verbatim>\<open>BACKSLASH\<close> of the one-letter escapes.\<close>

definition backslash :: "nat \<Rightarrow> nat option" where
  "backslash e =
     (if e = 34 then Some 34
      else if e = 92 then Some 92
      else if e = 47 then Some 47
      else if e = 98 then Some 8
      else if e = 102 then Some 12
      else if e = 110 then Some 10
      else if e = 114 then Some 13
      else if e = 116 then Some 9
      else None)"

text \<open>A result of the decoder with one more item in front of what was read.\<close>

definition prepend :: "'a \<Rightarrow> ('a list \<times> 'b) option \<Rightarrow> ('a list \<times> 'b) option" where
  "prepend x res = map_option (\<lambda>(xs, rest). (x # xs, rest)) res"

text \<open>
  \<^verbatim>\<open>scanstring\<close> (strict), from the character after the opening quote: it returns the
  string and the text after the closing quote. A high surrogate escape directly followed
  by a low surrogate escape is read as the one character the pair encodes.
\<close>

fun scanstring :: "pystr \<Rightarrow> (pystr \<times> pystr) option" where
  "scanstring [] = None"
| "scanstring (c # cs) =
     (if c = 34 then Some ([], cs)
      else if c = 92 then
        (case cs of
           [] \<Rightarrow> None
         | e # r \<Rightarrow>
             if e = 117 then
               (case decode_uXXXX r of
                  None \<Rightarrow> None
                | Some uni \<Rightarrow>
                    if 0xD800 \<le> uni \<and> uni \<le> 0xDBFF \<and> take 2 (drop 4 r) = [92, 117] then
                      (case decode_uXXXX (drop 6 r) of
                         None \<Rightarrow> None
                       | Some uni2 \<Rightarrow>
                           if 0xDC00 \<le> uni2 \<and> uni2 \<le> 0xDFFF
                           then prepend (0x10000 + ((uni - 0xD800) * 1024 + (uni2 - 0xDC00)))
                                  (scanstring (drop 10 r))
                           else prepend uni (scanstring (drop 4 r)))
                    else prepend uni (scanstring (drop 4 r)))
             else
               (case backslash e of
                  None \<Rightarrow> None
                | Some ch \<Rightarrow> prepend ch (scanstring r)))
      else if c < 32 then None
      else prepend c (scanstring cs))"

text \<open>
  \<^verbatim>\<open>NUMBER_RE\<close>: an optional minus sign, then 0 or a digit string that does not start
  with 0, then an optional fraction and an optional exponent. With neither fraction nor
  exponent the number is an int, otherwise a float.
\<close>

definition nat_of_digits :: "pystr \<Rightarrow> nat" where
  "nat_of_digits ds = foldl (\<lambda>a d. a * 10 + (d - 48)) 0 ds"

definition scan_int_part :: "pystr \<Rightarrow> (pystr \<times> pystr) option" where
  "scan_int_part s =
     (case s of
        [] \<Rightarrow> None
      | c # r \<Rightarrow>
          if c = 48 then Some ([48], r)
          else if 49 \<le> c \<and> c \<le> 57 then Some (c # takeWhile is_digit r, dropWhile is_digit r)
          else None)"

definition scan_frac :: "pystr \<Rightarrow> pystr \<times> pystr" where
  "scan_frac s =
     (case s of
        c # d # r \<Rightarrow>
          if c = 46 \<and> is_digit d then (c # takeWhile is_digit (d # r), dropWhile is_digit (d # r))
          else ([], s)
      | _ \<Rightarrow> ([], s))"

definition scan_exp :: "pystr \<Rightarrow> pystr \<times> pystr" where
  "scan_exp s =
     (case s of
        e # r \<Rightarrow>
          if e = 101 \<or> e = 69 then
            (case r of
               g # d # r' \<Rightarrow>
                 if (g = 45 \<or> g = 43) \<and> is_digit d
                 then (e # g # takeWhile is_digit (d # r'), dropWhile is_digit (d # r'))
                 else if is_digit g
                 then (e # takeWhile is_digit r, dropWhile is_digit r)
                 else ([], s)
             | [g] \<Rightarrow> if is_digit g then ([e, g], []) else ([], s)
             | [] \<Rightarrow> ([], s))
          else ([], s)
      | _ \<Rightarrow> ([], s))"

definition match_number :: "pystr \<Rightarrow> (pyval \<times> pystr) option" where
  "match_number s =
     (let neg = (case s of c # r \<Rightarrow> c = 45 | [] \<Rightarrow> False);
          s0 = (if neg then tl s else s)
      in case scan_int_part s0 of
           None \<Rightarrow> None
         | Some (ip, r1) \<Rightarrow>
             (let (frac, r2) = scan_frac r1;
                  (ex, r3) = scan_exp r2
              in if frac \<noteq> [] \<or> ex \<noteq> []
                 then Some (PFloat ((if neg then [45] else []) @ ip @ frac @ ex), r3)
                 else Some (PInt (if neg then - int (nat_of_digits ip) else int (nat_of_digits ip)),
                            r3)))"

text \<open>\<^verbatim>\<open>dict(pairs)\<close>: a key that comes again keeps its place and takes the new value.\<close>

fun dict_set :: "(pyval \<times> pyval) list \<Rightarrow> pyval \<Rightarrow> pyval \<Rightarrow> (pyval \<times> pyval) list" where
  "dict_set [] k v = [(k, v)]"
| "dict_set ((k', v') # kvs) k v =
     (if py_eq k' k then (k', v) # kvs else (k', v') # dict_set kvs k v)"

definition dict_of_pairs :: "(pyval \<times> pyval) list \<Rightarrow> (pyval \<times> pyval) list" where
  "dict_of_pairs pairs = foldl (\<lambda>d kv. dict_set d (fst kv) (snd kv)) [] pairs"

text \<open>
  \<^verbatim>\<open>scan_once\<close>, \<^verbatim>\<open>JSONArray\<close> and \<^verbatim>\<open>JSONObject\<close>. \<^verbatim>\<open>scan_once\<close> dispatches on the
  first character. \<^verbatim>\<open>scan_elements\<close> is the loop of \<^verbatim>\<open>JSONArray\<close>, entered at the
  first character of an element; \<^verbatim>\<open>scan_pairs\<close> is the loop of \<^verbatim>\<open>JSONObject\<close>,
  entered after the opening quote of a key. Every pass of a loop consumes text: the
  comparison of lengths that guards the next pass records it, and it never fails (lemma
  \<open>length_guards_hold\<close> below).
\<close>

lemma skip_ws_Cons_length: "skip_ws r = c # r' \<Longrightarrow> length r' < length r"
proof -
  assume a: "skip_ws r = c # r'"
  have "length (skip_ws r) \<le> length r"
    unfolding skip_ws_def by (rule length_dropWhile_le)
  with a show ?thesis by simp
qed

definition scan_atom :: "pystr \<Rightarrow> (pyval \<times> pystr) option" where
  "scan_atom s =
     (if take 4 s = str ''null'' then Some (PNone, drop 4 s)
      else if take 4 s = str ''true'' then Some (PBool True, drop 4 s)
      else if take 5 s = str ''false'' then Some (PBool False, drop 5 s)
      else
        (case match_number s of
           Some res \<Rightarrow> Some res
         | None \<Rightarrow>
             if take 3 s = str ''NaN'' then Some (PFloat (str ''NaN''), drop 3 s)
             else if take 8 s = str ''Infinity'' then Some (PFloat (str ''Infinity''), drop 8 s)
             else if take 9 s = str ''-Infinity''
             then Some (PFloat (str ''-Infinity''), drop 9 s)
             else None))"

function scan_once :: "pystr \<Rightarrow> (pyval \<times> pystr) option"
  and scan_elements :: "pystr \<Rightarrow> (pyval list \<times> pystr) option"
  and scan_pairs :: "pystr \<Rightarrow> ((pyval \<times> pyval) list \<times> pystr) option" where
  "scan_once s =
     (case s of
        [] \<Rightarrow> None
      | c # r \<Rightarrow>
          if c = 34 then map_option (\<lambda>(t, rest). (PStr t, rest)) (scanstring r)
          else if c = 123 then
            (case skip_ws r of
               [] \<Rightarrow> None
             | c' # r' \<Rightarrow>
                 if c' = 125 then Some (PDict [], r')
                 else if c' = 34
                 then map_option (\<lambda>(pairs, rest). (PDict (dict_of_pairs pairs), rest))
                        (scan_pairs r')
                 else None)
          else if c = 91 then
            (case skip_ws r of
               [] \<Rightarrow> None
             | c' # r' \<Rightarrow>
                 if c' = 93 then Some (PList [], r')
                 else map_option (\<lambda>(vs, rest). (PList vs, rest)) (scan_elements (c' # r')))
          else scan_atom s)"
| "scan_elements s =
     (case scan_once s of
        None \<Rightarrow> None
      | Some (v, rest) \<Rightarrow>
          (case skip_ws rest of
             [] \<Rightarrow> None
           | c # r \<Rightarrow>
               if c = 93 then Some ([v], r)
               else if c = 44 \<and> length (skip_ws r) < length s
               then prepend v (scan_elements (skip_ws r))
               else None))"
| "scan_pairs s =
     (case scanstring s of
        None \<Rightarrow> None
      | Some (k, r1) \<Rightarrow>
          (case skip_ws r1 of
             [] \<Rightarrow> None
           | c # r2 \<Rightarrow>
               if c = 58 \<and> length (skip_ws r2) < length s then
                 (case scan_once (skip_ws r2) of
                    None \<Rightarrow> None
                  | Some (v, r3) \<Rightarrow>
                      (case skip_ws r3 of
                         [] \<Rightarrow> None
                       | c' # r4 \<Rightarrow>
                           if c' = 125 then Some ([(PStr k, v)], r4)
                           else if c' = 44 then
                             (case skip_ws r4 of
                                [] \<Rightarrow> None
                              | q # r5 \<Rightarrow>
                                  if q = 34 \<and> length r5 < length s
                                  then prepend (PStr k, v) (scan_pairs r5)
                                  else None)
                           else None))
               else None))"
  by pat_completeness auto

termination
  by (relation "measure (\<lambda>x. case x of
                     Inl s \<Rightarrow> 2 * length s
                   | Inr (Inl s) \<Rightarrow> 2 * length s + 1
                   | Inr (Inr s) \<Rightarrow> 2 * length s + 1)")
     (auto dest: skip_ws_Cons_length)

declare scan_once.simps [simp del] scan_elements.simps [simp del] scan_pairs.simps [simp del]

text \<open>
  \<^verbatim>\<open>JSONDecoder.decode\<close>: whitespace, one value, whitespace, and the end of the text;
  anything left over is an error. \<^verbatim>\<open>json.loads\<close> is modelled on a \<^verbatim>\<open>str\<close>,
  which is all that \<^verbatim>\<open>to_python\<close> hands to the deserializer; any other argument
  raises \<^verbatim>\<open>TypeError\<close> (as a \<^verbatim>\<open>bytes\<close> does before Python 3.6).
\<close>

definition decode :: "pystr \<Rightarrow> exn + pyval" where
  "decode s =
     (case scan_once (skip_ws s) of
        None \<Rightarrow> Inl JSONDecodeError
      | Some (v, rest) \<Rightarrow> if skip_ws rest = [] then Inr v else Inl JSONDecodeError)"

fun loads :: "pyval \<Rightarrow> exn + pyval" where
  "loads (PStr s) = decode s"
| "loads _ = Inl TypeError"

section \<open>JSONField\<close>

text \<open>
  A method's outcome is the list of the calls it made to its collaborators (the
  configured serializer and deserializer, the default callable, the inherited
  \<^verbatim>\<open>TextField\<close> methods), in order, and either the exception it raised or the value it
  returned.
\<close>

datatype call =
    CallSerializer pyval
  | CallDeserializer pyval
  | CallDefault
  | CallSuperGetPrepValue pyval
  | CallSuperGetDbPrepSave pyval "pyval list"

type_synonym outcome = "call list \<times> (exn + pyval)"

text \<open>
  The \<^verbatim>\<open>default\<close> attribute of a field: the sentinel \<^verbatim>\<open>NOT_PROVIDED\<close>, a plain
  value, or a callable of no argument.
\<close>

datatype default_arg =
    NOT_PROVIDED
  | DefaultValue pyval
  | DefaultCallable "unit \<Rightarrow> exn + pyval"

text \<open>
  The attributes of the base class that the methods below read: \<^verbatim>\<open>null\<close>,
  \<^verbatim>\<open>default\<close> and \<^verbatim>\<open>attname\<close>. \<^verbatim>\<open>TextField_get_prep_value\<close> and
  \<^verbatim>\<open>TextField_get_db_prep_save\<close> are the inherited methods that \<^verbatim>\<open>super()\<close>
  reaches: they belong to the framework and are taken as they come.
\<close>

record TextField =
  null :: bool
  default :: default_arg
  attname :: pystr
  TextField_get_prep_value :: "pyval \<Rightarrow> exn + pyval"
  TextField_get_db_prep_save :: "pyval \<Rightarrow> pyval list \<Rightarrow> exn + pyval"

record JSONField = TextField +
  serializer :: "pyval \<Rightarrow> exn + pyval"
  deserializer :: "pyval \<Rightarrow> exn + pyval"

text \<open>
  \<^verbatim>\<open>__init__\<close> pops the keyword arguments \<^verbatim>\<open>serializer\<close> and
  \<^verbatim>\<open>deserializer\<close>, with \<^verbatim>\<open>dumps\<close> and \<^verbatim>\<open>json.loads\<close> as defaults, and leaves
  the rest to the base class.
\<close>

definition JSONField_init ::
  "(pyval \<Rightarrow> exn + pyval) option \<Rightarrow> (pyval \<Rightarrow> exn + pyval) option \<Rightarrow> TextField
   \<Rightarrow> JSONField" where
  "JSONField_init kw_serializer kw_deserializer base =
     TextField.extend base
       (JSONField.fields
          (case kw_serializer of None \<Rightarrow> dumps | Some f \<Rightarrow> f)
          (case kw_deserializer of None \<Rightarrow> loads | Some f \<Rightarrow> f))"

text \<open>
  \<^verbatim>\<open>try: ... except ValueError: pass\<close> followed by \<^verbatim>\<open>return value\<close>: a
  \<^verbatim>\<open>ValueError\<close> raised by the body is replaced by the fallback value, any other
  exception goes on to the caller.
\<close>

definition except_ValueError :: "outcome \<Rightarrow> pyval \<Rightarrow> outcome" where
  "except_ValueError body fallback =
     (case snd body of
        Inl e \<Rightarrow> if is_ValueError e then (fst body, Inr fallback) else body
      | Inr r \<Rightarrow> body)"

definition to_python :: "JSONField \<Rightarrow> pyval \<Rightarrow> outcome" where
  "to_python self v =
     (if py_eq v (PStr []) then ([], Inr PNone)
      else except_ValueError
        (case v of
           PStr s \<Rightarrow> ([CallDeserializer v], deserializer self v)
         | PBytes b \<Rightarrow>
             (case bytes_decode_utf8 b of
                Inl e \<Rightarrow> ([], Inl e)
              | Inr s \<Rightarrow> ([CallDeserializer (PStr s)], deserializer self (PStr s)))
         | _ \<Rightarrow> ([], Inr v))
        v)"

definition get_prep_value :: "JSONField \<Rightarrow> pyval \<Rightarrow> outcome" where
  "get_prep_value self v =
     (if py_eq v (PStr []) then ([], Inr PNone)
      else if isinstance_dict v \<or> isinstance_list v
      then ([CallSerializer v], serializer self v)
      else ([CallSuperGetPrepValue v], TextField_get_prep_value self v))"

definition from_db_value :: "JSONField \<Rightarrow> pyval \<Rightarrow> pyval list \<Rightarrow> outcome" where
  "from_db_value self v args = to_python self v"

definition has_default :: "JSONField \<Rightarrow> bool" where
  "has_default self = (default self \<noteq> NOT_PROVIDED)"

definition get_default :: "JSONField \<Rightarrow> outcome" where
  "get_default self =
     (if has_default self then
        (case default self of
           DefaultCallable f \<Rightarrow> ([CallDefault], f ())
         | DefaultValue d \<Rightarrow> ([], Inr d)
         | NOT_PROVIDED \<Rightarrow> ([], Inr (PStr [])))
      else ([], Inr (PStr [])))"

definition get_db_prep_save :: "JSONField \<Rightarrow> pyval \<Rightarrow> pyval list \<Rightarrow> outcome" where
  "get_db_prep_save self v args =
     (if py_eq v (PStr []) then ([], Inr PNone)
      else if isinstance_dict v \<or> isinstance_list v
      then ([CallSerializer v], serializer self v)
      else ([CallSuperGetDbPrepSave v args], TextField_get_db_prep_save self v args))"

text \<open>
  \<^verbatim>\<open>Field.value_from_object\<close> is \<^verbatim>\<open>getattr(obj, self.attname)\<close>; an object is the
  mapping from its attribute names to their values.
\<close>

definition Field_value_from_object :: "JSONField \<Rightarrow> (pystr \<rightharpoonup> pyval) \<Rightarrow> exn + pyval" where
  "Field_value_from_object self obj =
     (case obj (attname self) of
        None \<Rightarrow> Inl AttributeError
      | Some v \<Rightarrow> Inr v)"

definition value_from_object :: "JSONField \<Rightarrow> (pystr \<rightharpoonup> pyval) \<Rightarrow> outcome" where
  "value_from_object self obj =
     (case Field_value_from_object self obj of
        Inl e \<Rightarrow> ([], Inl e)
      | Inr v \<Rightarrow>
          if null self \<and> v = PNone then ([], Inr PNone)
          else ([CallSerializer v], serializer self v))"

section \<open>AutoOneToOneField\<close>

text \<open>
  The descriptor works on the store of the related model and on the cache that the
  framework keeps with every in-memory instance. A row of the related model has a
  primary key and the columns that were given a value when it was created (each a
  reference to a record, by primary key); every other column holds its default. An
  in-memory object of the related model has an identity of its own: two objects read
  from the same row are two objects.
\<close>

record model_instance =
  inst_id :: nat
  pk :: nat

record row =
  row_pk :: nat
  columns :: "(pystr \<times> nat) list"

record rel_obj =
  obj_id :: nat
  obj_row :: row

record world =
  table :: "row list"
  cache :: "nat \<rightharpoonup> rel_obj"
  next_obj_id :: nat
  next_pk :: nat

text \<open>
  \<^verbatim>\<open>self.related\<close>: the name of the one-to-one field on the related model, and the
  columns of the related model that have neither a default nor \<^verbatim>\<open>null=True\<close>, so
  that an insert which leaves one of them out violates a constraint.
\<close>

record related =
  field_name :: pystr
  required_fields :: "pystr list"

text \<open>
  The two operations of the framework that \<^verbatim>\<open>__get__\<close> delegates to: the inherited
  \<^verbatim>\<open>__get__\<close> of the base descriptor (the standard lookup) and
  \<^verbatim>\<open>model.objects.get_or_create\<close>. Each takes the world and returns an exception or
  a result, with the world it leaves.
\<close>

record orm =
  super_get :: "related \<Rightarrow> model_instance \<Rightarrow> world \<Rightarrow> (exn + rel_obj) \<times> world"
  get_or_create ::
    "related \<Rightarrow> (pystr \<times> model_instance) list \<Rightarrow> world \<Rightarrow> (exn + rel_obj \<times> bool) \<times> world"

datatype orm_call =
    CallSuperGet model_instance
  | CallGetOrCreate "(pystr \<times> model_instance) list"

text \<open>
  The decorator \<^verbatim>\<open>@atomic\<close>: when the body raises, what it wrote to the store is
  rolled back; the objects in memory stay as they are.
\<close>

definition atomic ::
  "(world \<Rightarrow> orm_call list \<times> (exn + rel_obj) \<times> world)
   \<Rightarrow> world \<Rightarrow> orm_call list \<times> (exn + rel_obj) \<times> world" where
  "atomic body w =
     (case body w of
        (calls, Inl e, w') \<Rightarrow> (calls, Inl e, w'\<lparr>table := table w\<rparr>)
      | (calls, Inr r, w') \<Rightarrow> (calls, Inr r, w'))"

text \<open>
  \<^verbatim>\<open>AutoSingleRelatedObjectDescriptor.__get__\<close>. The outcome is the list of the calls
  to the framework, the exception or the object returned, and the world.
\<close>

definition descriptor_get ::
  "orm \<Rightarrow> related \<Rightarrow> model_instance \<Rightarrow> world \<Rightarrow> orm_call list \<times> (exn + rel_obj) \<times> world" where
  "descriptor_get fw rel inst =
     atomic (\<lambda>w.
       case super_get fw rel inst w of
         (Inr obj, w1) \<Rightarrow> ([CallSuperGet inst], Inr obj, w1)
       | (Inl e, w1) \<Rightarrow>
           if e = DoesNotExist then
             (case get_or_create fw rel [(field_name rel, inst)] w1 of
                (Inl e', w2) \<Rightarrow>
                  ([CallSuperGet inst, CallGetOrCreate [(field_name rel, inst)]], Inl e', w2)
              | (Inr created, w2) \<Rightarrow>
                  (case super_get fw rel inst w2 of
                     (res, w3) \<Rightarrow>
                       ([CallSuperGet inst, CallGetOrCreate [(field_name rel, inst)],
                         CallSuperGet inst], res, w3)))
           else ([CallSuperGet inst], Inl e, w1))"

subsection \<open>The framework's lookup and create-if-absent\<close>

definition matches :: "(pystr \<times> nat) list \<Rightarrow> row \<Rightarrow> bool" where
  "matches conds r = list_all (\<lambda>c. c \<in> set (columns r)) conds"

text \<open>
  Modelled from the spec: the standard lookup of the related record, which is the
  framework's and not in the repository. An instance that has a related object in its
  cache gets that object; otherwise the store is queried for the row that refers to the
  instance, and the object built from it is put in the cache of the instance, so that
  later reads reuse it. With no such row the lookup raises the related model's
  \<^verbatim>\<open>DoesNotExist\<close>.
\<close>

definition std_get :: "related \<Rightarrow> model_instance \<Rightarrow> world \<Rightarrow> (exn + rel_obj) \<times> world" where
  "std_get rel inst w =
     (case cache w (inst_id inst) of
        Some obj \<Rightarrow> (Inr obj, w)
      | None \<Rightarrow>
          (case filter (matches [(field_name rel, pk inst)]) (table w) of
             [] \<Rightarrow> (Inl DoesNotExist, w)
           | [r] \<Rightarrow>
               (let obj = \<lparr>obj_id = next_obj_id w, obj_row = r\<rparr>
                in (Inr obj,
                    w\<lparr>cache := (cache w)(inst_id inst \<mapsto> obj),
                      next_obj_id := Suc (next_obj_id w)\<rparr>))
           | r # r' # rs \<Rightarrow> (Inl MultipleObjectsReturned, w)))"

text \<open>
  Modelled from the spec: the idempotent create-if-absent operation of the framework,
  which is not in the repository. A row that meets the keyword arguments is returned as
  it is; with none, a row is inserted that has only the keyword arguments populated.
  The object handed back is built in memory and is not put in any cache. The insert
  fails with \<^verbatim>\<open>IntegrityError\<close> when a required column is left out.
\<close>

definition std_get_or_create ::
  "related \<Rightarrow> (pystr \<times> model_instance) list \<Rightarrow> world \<Rightarrow> (exn + rel_obj \<times> bool) \<times> world" where
  "std_get_or_create rel kwargs w =
     (let conds = map (\<lambda>kv. (fst kv, pk (snd kv))) kwargs in
      case filter (matches conds) (table w) of
        [] \<Rightarrow>
          if list_all (\<lambda>f. f \<in> set (map fst kwargs)) (required_fields rel) then
            (let r = \<lparr>row_pk = next_pk w, columns = conds\<rparr>
             in (Inr (\<lparr>obj_id = next_obj_id w, obj_row = r\<rparr>, True),
                 w\<lparr>table := table w @ [r],
                   next_pk := Suc (next_pk w),
                   next_obj_id := Suc (next_obj_id w)\<rparr>))
          else (Inl IntegrityError, w)
      | [r] \<Rightarrow>
          (Inr (\<lparr>obj_id = next_obj_id w, obj_row = r\<rparr>, False),
           w\<lparr>next_obj_id := Suc (next_obj_id w)\<rparr>)
      | r # r' # rs \<Rightarrow> (Inl MultipleObjectsReturned, w))"

definition django :: orm where
  "django = \<lparr>super_get = std_get, get_or_create = std_get_or_create\<rparr>"

definition new_row :: "related \<Rightarrow> model_instance \<Rightarrow> world \<Rightarrow> row" where
  "new_row rel inst w = \<lparr>row_pk = next_pk w, columns = [(field_name rel, pk inst)]\<rparr>"

fun is_CallGetOrCreate :: "orm_call \<Rightarrow> bool" where
  "is_CallGetOrCreate (CallGetOrCreate kwargs) = True"
| "is_CallGetOrCreate _ = False"

section \<open>Values that the default serializer and deserializer carry\<close>











subsection \<open>Auxiliary notions\<close>






section \<open>Examples\<close>

text \<open>
  \<^verbatim>\<open>JSONField(blank=True, null=True)\<close> of the class's docstring, over a base whose
  conversions hand the value on as it is, and the same field with a deserializer that
  raises \<^verbatim>\<open>TypeError\<close>.
\<close>

definition plain_text_field :: TextField where
  "plain_text_field =
     \<lparr>null = True, default = NOT_PROVIDED, attname = str ''data'',
      TextField_get_prep_value = (\<lambda>v. Inr v),
      TextField_get_db_prep_save = (\<lambda>v args. Inr v)\<rparr>"

definition example_field :: JSONField where
  "example_field = JSONField_init None None plain_text_field"

definition strict_field :: JSONField where
  "strict_field = JSONField_init None (Some (\<lambda>v. Inl TypeError)) plain_text_field"

text \<open>
  A related model \<^verbatim>\<open>MyProfile\<close> with \<^verbatim>\<open>user = AutoOneToOneField(User)\<close>, once
  with defaults for all its other columns and once with a required column; a user in
  memory; and a store that holds the profile of another user.
\<close>

definition profile :: related where
  "profile = \<lparr>field_name = str ''user'', required_fields = []\<rparr>"

definition strict_profile :: related where
  "strict_profile = \<lparr>field_name = str ''user'', required_fields = [str ''nickname'']\<rparr>"

definition alice :: model_instance where
  "alice = \<lparr>inst_id = 7, pk = 3\<rparr>"

definition world0 :: world where
  "world0 = \<lparr>table = [\<lparr>row_pk = 1, columns = [(str ''user'', 9)]\<rparr>], cache = Map.empty,
             next_obj_id = 0, next_pk = 2\<rparr>"

text \<open>
  A second in-memory instance of the same user, and a store in which the user has a
  profile already.
\<close>

definition alice_again :: model_instance where
  "alice_again = \<lparr>inst_id = 8, pk = 3\<rparr>"

definition world1 :: world where
  "world1 = \<lparr>table = [\<lparr>row_pk = 1, columns = [(str ''user'', 3)]\<rparr>], cache = Map.empty,
             next_obj_id = 0, next_pk = 2\<rparr>"


section \<open>The default serializer and deserializer\<close>






lemma prepend_Some [simp]: "prepend x (Some (xs, rest)) = Some (x # xs, rest)"
  by (simp add: prepend_def)






















lemma skip_ws_length: "length (skip_ws r) \<le> length r"
  unfolding skip_ws_def by (rule length_dropWhile_le)


































text \<open>
  The decoder consumes text whenever it returns a value, so the comparisons of lengths
  that guard the loops of \<^verbatim>\<open>scan_elements\<close> and \<^verbatim>\<open>scan_pairs\<close> hold whenever
  they are reached.
\<close>

lemma prepend_eq_Some:
  "prepend x res = Some (ys, rest) \<longleftrightarrow> (\<exists>xs. res = Some (xs, rest) \<and> ys = x # xs)"
  by (cases res) (auto simp add: prepend_def)

lemma scanstring_consumes:
  "scanstring s = Some (t, rest) \<Longrightarrow> length rest < length s"
proof (induction s arbitrary: t rest rule: length_induct)
  case (1 s)
  have step: "scanstring u = Some (t', rest') \<Longrightarrow> length u < length s \<longrightarrow> length rest' < length s"
    for u t' rest'
    using "1.IH" by (meson less_trans)
  from "1.prems" obtain c cs where s: "s = c # cs"
    by (cases s) auto
  show ?case
    using "1.prems" unfolding s
    by (auto simp add: prepend_eq_Some s split: if_splits option.splits list.splits
          dest!: step)
qed


lemma scan_int_part_consumes:
  "scan_int_part s = Some (ip, r) \<Longrightarrow> length r < length s"
proof -
  have "length (dropWhile is_digit xs) \<le> length xs" for xs
    by (rule length_dropWhile_le)
  then have "length (dropWhile is_digit xs) < Suc (length xs)" for xs
    by (simp add: le_imp_less_Suc)
  then show "scan_int_part s = Some (ip, r) \<Longrightarrow> length r < length s"
    by (auto simp add: scan_int_part_def split: list.splits if_splits)
qed

lemma scan_frac_keeps: "scan_frac s = (f, r) \<Longrightarrow> length r \<le> length s"
proof -
  have d: "length (dropWhile is_digit xs) \<le> length xs" for xs
    by (rule length_dropWhile_le)
  show "scan_frac s = (f, r) \<Longrightarrow> length r \<le> length s"
    using d by (auto simp add: scan_frac_def le_SucI split: list.splits if_splits)
qed

lemma scan_exp_keeps: "scan_exp s = (e, r) \<Longrightarrow> length r \<le> length s"
proof -
  have d: "length (dropWhile is_digit xs) \<le> length xs" for xs
    by (rule length_dropWhile_le)
  show "scan_exp s = (e, r) \<Longrightarrow> length r \<le> length s"
    using d by (auto simp add: scan_exp_def le_SucI split: list.splits if_splits)
qed

lemma match_number_consumes:
  assumes "match_number s = Some (v, rest)"
  shows "length rest < length s"
proof -
  define s0 where "s0 = (if (case s of c # r \<Rightarrow> c = 45 | [] \<Rightarrow> False) then tl s else s)"
  have s0: "length s0 \<le> length s"
    by (simp add: s0_def)
  from assms obtain ip r1 where ip: "scan_int_part s0 = Some (ip, r1)"
    unfolding match_number_def Let_def s0_def [symmetric]
    by (auto split: option.splits)
  obtain f r2 where f: "scan_frac r1 = (f, r2)" by (cases "scan_frac r1")
  obtain e r3 where e: "scan_exp r2 = (e, r3)" by (cases "scan_exp r2")
  from assms have "rest = r3"
    unfolding match_number_def Let_def s0_def [symmetric]
    by (auto simp add: ip f e split: if_splits)
  with scan_int_part_consumes [OF ip] scan_frac_keeps [OF f] scan_exp_keeps [OF e] s0
  show ?thesis by simp
qed

lemma take_eq_length: "take n s = lit \<Longrightarrow> length lit = n \<Longrightarrow> n \<le> length s"
  by (metis length_take min.cobounded1 min.commute)

lemma scan_atom_consumes:
  assumes "scan_atom s = Some (v, rest)"
  shows "length rest < length s"
proof -
  have lit: "length s - n < length s" if "take n s = str cs" "length cs = n" "0 < n" for n cs
  proof -
    from that(2) have "length (str cs) = n" by (simp add: str_def)
    with that(1) have "n \<le> length s" by (rule take_eq_length)
    with that(3) show ?thesis by simp
  qed
  from assms show ?thesis
    by (auto simp add: scan_atom_def match_number_consumes
          lit [of 4 "''null''"] lit [of 4 "''true''"] lit [of 5 "''false''"]
          lit [of 3 "''NaN''"] lit [of 8 "''Infinity''"] lit [of 9 "''-Infinity''"]
          split: if_splits option.splits)
qed


lemma scan_consumes:
  "(scan_once s = Some (v, rest) \<longrightarrow> length rest < length s)
   \<and> (scan_elements s = Some (vs, rest) \<longrightarrow> length rest < length s)
   \<and> (scan_pairs s = Some (ps, rest) \<longrightarrow> length rest < length s)"
proof (induction s arbitrary: v vs ps rest rule: length_induct)
  case (1 s)
  have ih_once: "scan_once u = Some (v', r') \<Longrightarrow> length u < length s \<longrightarrow> length r' < length s"
    for u v' r'
    using "1.IH" by (meson less_trans)
  have ih_elements:
    "scan_elements u = Some (vs', r') \<Longrightarrow> length u < length s \<longrightarrow> length r' < length s"
    for u vs' r'
    using "1.IH" by (meson less_trans)
  have ih_pairs:
    "scan_pairs u = Some (ps', r') \<Longrightarrow> length u < length s \<longrightarrow> length r' < length s"
    for u ps' r'
    using "1.IH" by (meson less_trans)
  have once: "length r' < length s" if "scan_once s = Some (v', r')" for v' r'
  proof (cases s)
    case Nil
    with that show ?thesis by (simp add: scan_once.simps)
  next
    case (Cons c r)
    show ?thesis
      using that scan_atom_consumes [of s v' r'] unfolding Cons
      by (subst (asm) scan_once.simps)
         (auto simp add: Cons split: if_splits list.splits
            dest!: skip_ws_Cons_length scanstring_consumes ih_pairs ih_elements)
  qed
  have elements: "length r' < length s" if "scan_elements s = Some (vs', r')" for vs' r'
    using that
    by (subst (asm) scan_elements.simps)
       (auto simp add: prepend_eq_Some split: if_splits list.splits option.splits
          dest!: skip_ws_Cons_length once ih_elements)
  have pairs: "length r' < length s" if "scan_pairs s = Some (ps', r')" for ps' r'
    using that
    by (subst (asm) scan_pairs.simps)
       (auto simp add: prepend_eq_Some split: if_splits list.splits option.splits
          dest!: skip_ws_Cons_length scanstring_consumes ih_once ih_pairs)
  from once elements pairs show ?case by blast
qed


lemma length_guards_hold:
  "(scan_once s = Some (v, rest) \<and> skip_ws rest = c # r
      \<longrightarrow> length (skip_ws r) < length s)
   \<and> (scanstring s = Some (k, r1) \<and> skip_ws r1 = c1 # r2
      \<longrightarrow> length (skip_ws r2) < length s)
   \<and> (scanstring s = Some (k, r1) \<and> skip_ws r1 = c1 # r2
      \<and> scan_once (skip_ws r2) = Some (v2, r3) \<and> skip_ws r3 = c3 # r4
      \<and> skip_ws r4 = q # r5
      \<longrightarrow> length r5 < length s)"
proof (intro conjI impI; elim conjE)
  assume a: "scan_once s = Some (v, rest)" "skip_ws rest = c # r"
  from a(1) have "length rest < length s" by (simp add: scan_consumes)
  moreover from a(2) have "length r < length rest" by (rule skip_ws_Cons_length)
  moreover have "length (skip_ws r) \<le> length r" by (rule skip_ws_length)
  ultimately show "length (skip_ws r) < length s" by simp
next
  assume a: "scanstring s = Some (k, r1)" "skip_ws r1 = c1 # r2"
  from a(1) have "length r1 < length s" by (rule scanstring_consumes)
  moreover from a(2) have "length r2 < length r1" by (rule skip_ws_Cons_length)
  moreover have "length (skip_ws r2) \<le> length r2" by (rule skip_ws_length)
  ultimately show "length (skip_ws r2) < length s" by simp
next
  assume a: "scanstring s = Some (k, r1)" "skip_ws r1 = c1 # r2"
    "scan_once (skip_ws r2) = Some (v2, r3)" "skip_ws r3 = c3 # r4" "skip_ws r4 = q # r5"
  from a(1) have "length r1 < length s" by (rule scanstring_consumes)
  moreover from a(2) have "length r2 < length r1" by (rule skip_ws_Cons_length)
  moreover have "length (skip_ws r2) \<le> length r2" by (rule skip_ws_length)
  moreover from a(3) have "length r3 < length (skip_ws r2)" by (simp add: scan_consumes)
  moreover from a(4) have "length r4 < length r3" by (rule skip_ws_Cons_length)
  moreover from a(5) have "length r5 < length r4" by (rule skip_ws_Cons_length)
  ultimately show "length r5 < length s" by simp
qed




section \<open>Properties of JSONField\<close>

lemma py_eq_empty_str: "py_eq v (PStr []) = (v = PStr [])"
  by (cases v) simp_all

lemma example_field_simps:
  "deserializer example_field = loads"
  "serializer example_field = dumps"
  "null example_field = True"
  "default example_field = NOT_PROVIDED"
  "attname example_field = str ''data''"
  "TextField_get_prep_value example_field = (\<lambda>v. Inr v)"
  "TextField_get_db_prep_save example_field = (\<lambda>v args. Inr v)"
  by (simp_all add: example_field_def JSONField_init_def plain_text_field_def
        TextField.extend_def JSONField.fields_def)

lemma strict_field_simps:
  "deserializer strict_field = (\<lambda>v. Inl TypeError)"
  by (simp add: strict_field_def JSONField_init_def plain_text_field_def
        TextField.extend_def JSONField.fields_def)

lemma decode_empty: "decode [] = Inl JSONDecodeError"
  by (simp add: decode_def skip_ws_def scan_once.simps)

lemma decode_hello: "decode (str ''hello'') = Inl JSONDecodeError"
  by code_simp

text \<open>
  Claim C3, as amended. For every stored string \<open>s\<close> other than the empty one on which
  the deserializer raises \<^verbatim>\<open>ValueError\<close> or one of its subclasses,
  \<^verbatim>\<open>to_python\<close> and \<^verbatim>\<open>from_db_value\<close> call the deserializer once and return \<open>s\<close>
  itself, raising nothing. When the deserializer raises an exception of another class,
  that exception reaches the caller.
\<close>

theorem decode_failure_returns_raw_string:
  "(s \<noteq> [] \<and> deserializer self (PStr s) = Inl e \<and> is_ValueError e \<longrightarrow>
      to_python self (PStr s) = ([CallDeserializer (PStr s)], Inr (PStr s))
      \<and> from_db_value self (PStr s) args = ([CallDeserializer (PStr s)], Inr (PStr s)))
   \<and> (s \<noteq> [] \<and> deserializer self (PStr s) = Inl e \<and> \<not> is_ValueError e \<longrightarrow>
      to_python self (PStr s) = ([CallDeserializer (PStr s)], Inl e)
      \<and> from_db_value self (PStr s) args = ([CallDeserializer (PStr s)], Inl e))"
  by (simp add: to_python_def from_db_value_def except_ValueError_def)

theorem decode_failure_returns_raw_string_witness:
  "str ''hello'' \<noteq> []
   \<and> deserializer example_field (PStr (str ''hello'')) = Inl JSONDecodeError
   \<and> is_ValueError JSONDecodeError
   \<and> to_python example_field (PStr (str ''hello''))
       = ([CallDeserializer (PStr (str ''hello''))], Inr (PStr (str ''hello'')))
   \<and> str ''{}'' \<noteq> []
   \<and> deserializer strict_field (PStr (str ''{}'')) = Inl TypeError
   \<and> \<not> is_ValueError TypeError
   \<and> to_python strict_field (PStr (str ''{}''))
       = ([CallDeserializer (PStr (str ''{}''))], Inl TypeError)"
proof -
  have h1: "str ''hello'' \<noteq> []" "str ''{}'' \<noteq> []"
    by (simp_all add: str_def)
  have h2: "deserializer example_field (PStr (str ''hello'')) = Inl JSONDecodeError"
    by (simp add: example_field_simps decode_hello)
  have h3: "deserializer strict_field (PStr (str ''{}'')) = Inl TypeError"
    by (simp add: strict_field_simps)
  from decode_failure_returns_raw_string
         [of "str ''hello''" example_field JSONDecodeError]
       decode_failure_returns_raw_string
         [of "str ''{}''" strict_field TypeError]
  show ?thesis using h1 h2 h3 by simp
qed

text \<open>
  Claim C3, as stated, fails. \<^verbatim>\<open>json.loads\<close> fails on the empty string, yet reading
  the empty string yields \<^verbatim>\<open>None\<close> and not the string; and a deserializer that fails
  with \<^verbatim>\<open>TypeError\<close> makes the read raise.
\<close>

theorem decode_failure_counterexample:
  "deserializer example_field (PStr []) = Inl JSONDecodeError
   \<and> to_python example_field (PStr []) = ([], Inr PNone)
   \<and> PNone \<noteq> PStr []
   \<and> deserializer strict_field (PStr (str ''{}'')) = Inl TypeError
   \<and> to_python strict_field (PStr (str ''{}''))
       = ([CallDeserializer (PStr (str ''{}''))], Inl TypeError)"
  by (simp add: example_field_simps strict_field_simps decode_empty to_python_def
        except_ValueError_def str_def)

text \<open>
  Claim C4. Reading the empty string, through \<^verbatim>\<open>to_python\<close> or
  \<^verbatim>\<open>from_db_value\<close>, yields \<^verbatim>\<open>None\<close> whatever the field's deserializer is; no
  exception is raised and the deserializer is not called.
\<close>

theorem empty_string_reads_as_None:
  "to_python self (PStr []) = ([], Inr PNone)
   \<and> from_db_value self (PStr []) args = ([], Inr PNone)"
  by (simp add: to_python_def from_db_value_def)

text \<open>
  Claim C5, as amended. On write, by \<^verbatim>\<open>get_prep_value\<close> and by
  \<^verbatim>\<open>get_db_prep_save\<close>: a dict or a list is handed to the field's serializer, whose
  outcome is the outcome of the method; the empty string becomes \<^verbatim>\<open>None\<close> and
  nothing is called; every other value is passed unchanged to the inherited method of
  the text field, whose outcome is the outcome of the method.
\<close>

theorem write_conversion:
  "(isinstance_dict v \<or> isinstance_list v \<longrightarrow>
      get_prep_value self v = ([CallSerializer v], serializer self v)
      \<and> get_db_prep_save self v args = ([CallSerializer v], serializer self v))
   \<and> get_prep_value self (PStr []) = ([], Inr PNone)
   \<and> get_db_prep_save self (PStr []) args = ([], Inr PNone)
   \<and> (\<not> isinstance_dict v \<and> \<not> isinstance_list v \<and> v \<noteq> PStr [] \<longrightarrow>
      get_prep_value self v = ([CallSuperGetPrepValue v], TextField_get_prep_value self v)
      \<and> get_db_prep_save self v args
          = ([CallSuperGetDbPrepSave v args], TextField_get_db_prep_save self v args))"
proof -
  have "isinstance_dict v \<or> isinstance_list v \<Longrightarrow> v \<noteq> PStr []"
    by (cases v) simp_all
  then show ?thesis
    by (auto simp add: get_prep_value_def get_db_prep_save_def py_eq_empty_str)
qed

theorem write_conversion_witness:
  "isinstance_dict (PDict [(PStr (str ''a''), PInt 1)])
   \<and> get_prep_value example_field (PDict [(PStr (str ''a''), PInt 1)])
       = ([CallSerializer (PDict [(PStr (str ''a''), PInt 1)])],
          dumps (PDict [(PStr (str ''a''), PInt 1)]))
   \<and> \<not> isinstance_dict (PInt 5) \<and> \<not> isinstance_list (PInt 5) \<and> PInt 5 \<noteq> PStr []
   \<and> get_prep_value example_field (PInt 5) = ([CallSuperGetPrepValue (PInt 5)], Inr (PInt 5))"
  using write_conversion [of "PDict [(PStr (str ''a''), PInt 1)]" example_field]
        write_conversion [of "PInt 5" example_field]
  by (simp add: example_field_simps)

text \<open>
  Claim C5, as stated, fails at the empty string: it is neither a dict nor a list, yet
  it is not passed to the inherited conversion (which would have kept it); the method
  returns \<^verbatim>\<open>None\<close>, so that what is stored is neither the empty string nor a JSON
  text.
\<close>

theorem write_conversion_counterexample:
  "\<not> isinstance_dict (PStr []) \<and> \<not> isinstance_list (PStr [])
   \<and> get_prep_value example_field (PStr []) = ([], Inr PNone)
   \<and> get_db_prep_save example_field (PStr []) [] = ([], Inr PNone)
   \<and> TextField_get_prep_value example_field (PStr []) = Inr (PStr [])
   \<and> TextField_get_db_prep_save example_field (PStr []) [] = Inr (PStr [])"
  by (simp add: get_prep_value_def get_db_prep_save_def example_field_simps)

text \<open>
  Claim C6, as amended. \<^verbatim>\<open>get_default\<close> calls neither the serializer nor the base
  class: with a default that is a plain value it returns that value, with a callable
  default it returns the outcome of calling it, and with no default configured it
  returns the empty string.
\<close>

theorem get_default_is_raw:
  "(default self = DefaultValue d \<longrightarrow> get_default self = ([], Inr d))
   \<and> (default self = DefaultCallable f \<longrightarrow> get_default self = ([CallDefault], f ()))
   \<and> (default self = NOT_PROVIDED \<longrightarrow> get_default self = ([], Inr (PStr [])))"
  by (simp add: get_default_def has_default_def)

theorem get_default_is_raw_witness:
  "default (example_field\<lparr>default := DefaultValue (PDict [])\<rparr>) = DefaultValue (PDict [])
   \<and> get_default (example_field\<lparr>default := DefaultValue (PDict [])\<rparr>) = ([], Inr (PDict []))
   \<and> default (example_field\<lparr>default := DefaultCallable (\<lambda>u. Inr (PList []))\<rparr>)
       = DefaultCallable (\<lambda>u. Inr (PList []))
   \<and> get_default (example_field\<lparr>default := DefaultCallable (\<lambda>u. Inr (PList []))\<rparr>)
       = ([CallDefault], Inr (PList []))
   \<and> default example_field = NOT_PROVIDED
   \<and> get_default example_field = ([], Inr (PStr []))"
  using get_default_is_raw [of "example_field\<lparr>default := DefaultValue (PDict [])\<rparr>" "PDict []"]
        get_default_is_raw
          [of "example_field\<lparr>default := DefaultCallable (\<lambda>u. Inr (PList []))\<rparr>" _
              "\<lambda>u. Inr (PList [])"]
        get_default_is_raw [of example_field]
  by (simp add: example_field_simps)

text \<open>
  Claim C6, as stated, fails for a field with no explicit default: the default read is
  the empty string, which is a string and not a structured value such as \<^verbatim>\<open>{}\<close>.
\<close>

theorem get_default_counterexample:
  "\<not> has_default example_field
   \<and> get_default example_field = ([], Inr (PStr []))
   \<and> \<not> py_eq (PStr []) (PDict [])
   \<and> isinstance_str (PStr [])"
  by (simp add: get_default_def has_default_def example_field_simps)

text \<open>
  Claim C7. For every object that has the field's attribute, with value \<open>v\<close>:
  \<^verbatim>\<open>value_from_object\<close> returns \<^verbatim>\<open>None\<close> without calling the serializer when the
  field is nullable and \<open>v\<close> is \<^verbatim>\<open>None\<close>; in every other case, also when \<open>v\<close> is
  \<^verbatim>\<open>None\<close> and the field is not nullable, it returns what the serializer makes of
  \<open>v\<close>.
\<close>

theorem value_from_object_renders:
  "value_from_object self (obj(attname self \<mapsto> v)) =
     (if null self \<and> v = PNone then ([], Inr PNone)
      else ([CallSerializer v], serializer self v))
   \<and> value_from_object (self\<lparr>null := False\<rparr>) (obj(attname self \<mapsto> PNone))
       = ([CallSerializer PNone], serializer self PNone)"
  by (simp add: value_from_object_def Field_value_from_object_def)

text \<open>
  Claim C10. \<^verbatim>\<open>to_python\<close> on a \<^verbatim>\<open>bytes\<close> value (none of which equals the empty
  \<^verbatim>\<open>str\<close>) decodes it as UTF-8 and passes the text to the deserializer; when the
  decoding or the deserializer raises \<^verbatim>\<open>ValueError\<close> or a subclass, the bytes are
  returned unchanged. A value that is neither a \<^verbatim>\<open>str\<close> nor a \<^verbatim>\<open>bytes\<close> is returned
  unchanged and the deserializer is not called.
\<close>

theorem to_python_bytes_and_other_values:
  "to_python self (PBytes b) =
     (case bytes_decode_utf8 b of
        Inl e \<Rightarrow> ([], Inr (PBytes b))
      | Inr s \<Rightarrow>
          ([CallDeserializer (PStr s)],
           case deserializer self (PStr s) of
             Inl e \<Rightarrow> if is_ValueError e then Inr (PBytes b) else Inl e
           | Inr r \<Rightarrow> Inr r))
   \<and> (\<not> isinstance_str v \<and> \<not> isinstance_bytes v \<longrightarrow> to_python self v = ([], Inr v))"
proof
  show "to_python self (PBytes b) =
     (case bytes_decode_utf8 b of
        Inl e \<Rightarrow> ([], Inr (PBytes b))
      | Inr s \<Rightarrow>
          ([CallDeserializer (PStr s)],
           case deserializer self (PStr s) of
             Inl e \<Rightarrow> if is_ValueError e then Inr (PBytes b) else Inl e
           | Inr r \<Rightarrow> Inr r))"
    by (simp add: to_python_def except_ValueError_def bytes_decode_utf8_def
          split: option.splits sum.splits)
  show "\<not> isinstance_str v \<and> \<not> isinstance_bytes v \<longrightarrow> to_python self v = ([], Inr v)"
    by (cases v) (simp_all add: to_python_def except_ValueError_def)
qed

lemma decode_one: "decode (str ''1'') = Inr (PInt 1)"
  by code_simp

lemma utf8_decode_one: "bytes_decode_utf8 [0x31] = Inr (str ''1'')"
  by (simp add: bytes_decode_utf8_def str_def)

lemma utf8_decode_bad: "bytes_decode_utf8 [0xFF] = Inl UnicodeDecodeError"
  by (simp add: bytes_decode_utf8_def)

theorem to_python_bytes_and_other_values_witness:
  "to_python example_field (PBytes [0x31]) = ([CallDeserializer (PStr (str ''1''))], Inr (PInt 1))
   \<and> to_python example_field (PBytes [0xFF]) = ([], Inr (PBytes [0xFF]))
   \<and> \<not> isinstance_str (PDict [(PStr (str ''a''), PInt 1)])
   \<and> \<not> isinstance_bytes (PDict [(PStr (str ''a''), PInt 1)])
   \<and> to_python example_field (PDict [(PStr (str ''a''), PInt 1)])
       = ([], Inr (PDict [(PStr (str ''a''), PInt 1)]))"
  using to_python_bytes_and_other_values [of example_field "[0x31]" "PDict [(PStr (str ''a''), PInt 1)]"]
        to_python_bytes_and_other_values [of example_field "[0xFF]" PNone]
  by (simp add: utf8_decode_one utf8_decode_bad example_field_simps decode_one)

section \<open>Properties of the descriptor\<close>

lemma django_simps:
  "super_get django = std_get" "get_or_create django = std_get_or_create"
  by (simp_all add: django_def)

lemma matches_new_row: "matches [(f, p)] \<lparr>row_pk = n, columns = [(f, p)]\<rparr>"
  by (simp add: matches_def)

lemma std_get_absent:
  assumes "filter (matches [(field_name rel, pk inst)]) (table w) = []"
      and "cache w (inst_id inst) = None"
  shows "std_get rel inst w = (Inl DoesNotExist, w)"
  using assms by (simp add: std_get_def)

lemma std_get_or_create_absent:
  assumes "filter (matches [(field_name rel, pk inst)]) (table w) = []"
      and "list_all (\<lambda>f. f = field_name rel) (required_fields rel)"
  shows "std_get_or_create rel [(field_name rel, inst)] w
           = (Inr (\<lparr>obj_id = next_obj_id w, obj_row = new_row rel inst w\<rparr>, True),
              w\<lparr>table := table w @ [new_row rel inst w], next_pk := Suc (next_pk w),
                next_obj_id := Suc (next_obj_id w)\<rparr>)"
proof -
  have "list_all (\<lambda>f. f \<in> set (map fst [(field_name rel, inst)])) (required_fields rel)"
    using assms(2) by (simp add: list_all_iff)
  with assms(1) show ?thesis
    by (simp add: std_get_or_create_def new_row_def Let_def)
qed

lemma std_get_present:
  assumes "filter (matches [(field_name rel, pk inst)]) (table w) = [r]"
      and "cache w (inst_id inst) = None"
  shows "std_get rel inst w
           = (Inr \<lparr>obj_id = next_obj_id w, obj_row = r\<rparr>,
              w\<lparr>cache := (cache w)(inst_id inst \<mapsto> \<lparr>obj_id = next_obj_id w, obj_row = r\<rparr>),
                next_obj_id := Suc (next_obj_id w)\<rparr>)"
  using assms by (simp add: std_get_def Let_def)

lemma rows_after_create:
  assumes "filter (matches [(field_name rel, pk inst)]) (table w) = []"
  shows "filter (matches [(field_name rel, pk inst)]) (table w @ [new_row rel inst w])
           = [new_row rel inst w]"
  using assms by (simp add: new_row_def matches_new_row)



text \<open>
  Claim C8. Whatever the framework's operations do: an exception raised by the
  create-if-absent call leaves \<^verbatim>\<open>__get__\<close> as it is, with no further call; an
  exception of the first lookup other than the related model's \<^verbatim>\<open>DoesNotExist\<close> is
  not caught; an exception of the second lookup, \<^verbatim>\<open>DoesNotExist\<close> included, is not
  caught either; and no read calls create-if-absent more than once. (The surrounding
  transaction rolls the store back to where the read began.)
\<close>

theorem creation_failure_propagates:
  "(super_get fw rel inst w = (Inl DoesNotExist, w1)
      \<and> get_or_create fw rel [(field_name rel, inst)] w1 = (Inl e, w2)
    \<longrightarrow> descriptor_get fw rel inst w
          = ([CallSuperGet inst, CallGetOrCreate [(field_name rel, inst)]], Inl e,
             w2\<lparr>table := table w\<rparr>))
   \<and> (super_get fw rel inst w = (Inl e', w1') \<and> e' \<noteq> DoesNotExist
    \<longrightarrow> descriptor_get fw rel inst w = ([CallSuperGet inst], Inl e', w1'\<lparr>table := table w\<rparr>))
   \<and> (super_get fw rel inst w = (Inl DoesNotExist, v1)
      \<and> get_or_create fw rel [(field_name rel, inst)] v1 = (Inr created, v2)
      \<and> super_get fw rel inst v2 = (Inl e'', v3)
    \<longrightarrow> descriptor_get fw rel inst w
          = ([CallSuperGet inst, CallGetOrCreate [(field_name rel, inst)], CallSuperGet inst],
             Inl e'', v3\<lparr>table := table w\<rparr>))
   \<and> length (filter is_CallGetOrCreate (fst (descriptor_get fw rel inst w))) \<le> 1"
  by (auto simp add: descriptor_get_def atomic_def split: prod.splits sum.splits)

theorem creation_failure_propagates_witness:
  "super_get django strict_profile alice world0 = (Inl DoesNotExist, world0)
   \<and> get_or_create django strict_profile [(field_name strict_profile, alice)] world0
       = (Inl IntegrityError, world0)
   \<and> descriptor_get django strict_profile alice world0
       = ([CallSuperGet alice, CallGetOrCreate [(field_name strict_profile, alice)]],
          Inl IntegrityError, world0)"
proof -
  have h1: "super_get django strict_profile alice world0 = (Inl DoesNotExist, world0)"
    by (simp add: django_simps std_get_def strict_profile_def alice_def world0_def matches_def
          str_def)
  have h2: "get_or_create django strict_profile [(field_name strict_profile, alice)] world0
              = (Inl IntegrityError, world0)"
    by (simp add: django_simps std_get_or_create_def strict_profile_def alice_def world0_def
          matches_def str_def)
  have same: "world0\<lparr>table := table world0\<rparr> = world0"
    by simp
  from creation_failure_propagates
         [of django strict_profile alice world0 world0 IntegrityError world0]
  show ?thesis
    using h1 h2 same by simp
qed

text \<open>
  A record that has its related record: whatever the framework's operations do, when
  the lookup returns an object, \<^verbatim>\<open>__get__\<close> returns that object and the world the
  lookup left, and create-if-absent is not called.
\<close>

theorem existing_record_is_returned:
  "super_get fw rel inst w = (Inr obj, w1)
   \<longrightarrow> descriptor_get fw rel inst w = ([CallSuperGet inst], Inr obj, w1)"
  by (simp add: descriptor_get_def atomic_def)

theorem existing_record_is_returned_witness:
  "super_get django profile alice world1
     = (Inr \<lparr>obj_id = 0, obj_row = \<lparr>row_pk = 1, columns = [(str ''user'', 3)]\<rparr>\<rparr>,
        world1\<lparr>cache := (cache world1)(7 \<mapsto>
                  \<lparr>obj_id = 0, obj_row = \<lparr>row_pk = 1, columns = [(str ''user'', 3)]\<rparr>\<rparr>),
               next_obj_id := 1\<rparr>)
   \<and> fst (descriptor_get django profile alice world1) = [CallSuperGet alice]
   \<and> table (snd (snd (descriptor_get django profile alice world1))) = table world1"
proof -
  have h: "super_get django profile alice world1
     = (Inr \<lparr>obj_id = 0, obj_row = \<lparr>row_pk = 1, columns = [(str ''user'', 3)]\<rparr>\<rparr>,
        world1\<lparr>cache := (cache world1)(7 \<mapsto>
                  \<lparr>obj_id = 0, obj_row = \<lparr>row_pk = 1, columns = [(str ''user'', 3)]\<rparr>\<rparr>),
               next_obj_id := 1\<rparr>)"
    by (simp add: django_simps std_get_def profile_def alice_def world1_def matches_def str_def
          Let_def)
  from existing_record_is_returned [of django profile alice world1] h
  show ?thesis by simp
qed

text \<open>
  Two reads one after the other, through two in-memory instances of the same record
  that both start with an empty cache, where the store holds no related record at
  first: the second read makes one call, the lookup, which finds the record that the
  first read created; one related record exists afterwards.
\<close>

theorem second_instance_finds_the_record:
  assumes absent: "filter (matches [(field_name rel, pk a)]) (table w) = []"
      and fresh: "cache w (inst_id a) = None" "cache w (inst_id b) = None"
      and same: "pk b = pk a" "inst_id b \<noteq> inst_id a"
      and creatable: "list_all (\<lambda>f. f = field_name rel) (required_fields rel)"
  shows "(let w1 = snd (snd (descriptor_get django rel a w));
              res = descriptor_get django rel b w1
          in fst res = [CallSuperGet b]
             \<and> fst (snd res)
                 = Inr \<lparr>obj_id = Suc (Suc (next_obj_id w)), obj_row = new_row rel a w\<rparr>
             \<and> filter (matches [(field_name rel, pk a)]) (table (snd (snd res)))
                 = [new_row rel a w])"
proof -
  define r where "r = new_row rel a w"
  define w2 where "w2 = w\<lparr>table := table w @ [r], next_pk := Suc (next_pk w),
                           next_obj_id := Suc (next_obj_id w)\<rparr>"
  define obj where "obj = \<lparr>obj_id = Suc (next_obj_id w), obj_row = r\<rparr>"
  define w1 where "w1 = w\<lparr>table := table w @ [r],
                     cache := (cache w)(inst_id a \<mapsto> obj),
                     next_obj_id := Suc (Suc (next_obj_id w)),
                     next_pk := Suc (next_pk w)\<rparr>"
  have look: "std_get rel a w = (Inl DoesNotExist, w)"
    by (rule std_get_absent [OF absent fresh(1)])
  have create: "std_get_or_create rel [(field_name rel, a)] w
                  = (Inr (\<lparr>obj_id = next_obj_id w, obj_row = r\<rparr>, True), w2)"
    unfolding r_def w2_def by (rule std_get_or_create_absent [OF absent creatable])
  have found: "filter (matches [(field_name rel, pk a)]) (table w2) = [r]"
    using rows_after_create [OF absent] by (simp add: w2_def r_def)
  have "cache w2 (inst_id a) = None"
    using fresh(1) by (simp add: w2_def)
  from std_get_present [OF found this]
  have again: "std_get rel a w2 = (Inr obj, w1)"
    by (simp add: w2_def obj_def w1_def)
  have first: "descriptor_get django rel a w
               = ([CallSuperGet a, CallGetOrCreate [(field_name rel, a)], CallSuperGet a],
                  Inr obj, w1)"
    by (simp add: descriptor_get_def atomic_def django_simps look create again)
  have rows: "filter (matches [(field_name rel, pk b)]) (table w1) = [r]"
    using found same(1) by (simp add: w1_def w2_def)
  have "cache w1 (inst_id b) = None"
    using fresh(2) same(2) by (simp add: w1_def)
  from std_get_present [OF rows this]
  have other: "std_get rel b w1
                 = (Inr \<lparr>obj_id = Suc (Suc (next_obj_id w)), obj_row = r\<rparr>,
                    w1\<lparr>cache := (cache w1)(inst_id b \<mapsto>
                             \<lparr>obj_id = Suc (Suc (next_obj_id w)), obj_row = r\<rparr>),
                         next_obj_id := Suc (Suc (Suc (next_obj_id w)))\<rparr>)"
    by (simp add: w1_def)
  have second: "descriptor_get django rel b w1
                  = ([CallSuperGet b], Inr \<lparr>obj_id = Suc (Suc (next_obj_id w)), obj_row = r\<rparr>,
                     w1\<lparr>cache := (cache w1)(inst_id b \<mapsto>
                              \<lparr>obj_id = Suc (Suc (next_obj_id w)), obj_row = r\<rparr>),
                          next_obj_id := Suc (Suc (Suc (next_obj_id w)))\<rparr>)"
    by (simp add: descriptor_get_def atomic_def django_simps other)
  show ?thesis
    unfolding Let_def first r_def [symmetric] using rows same(1) by (simp add: second)
qed

theorem second_instance_finds_the_record_witness:
  "filter (matches [(field_name profile, pk alice)]) (table world0) = []
   \<and> cache world0 (inst_id alice) = None \<and> cache world0 (inst_id alice_again) = None
   \<and> pk alice_again = pk alice \<and> inst_id alice_again \<noteq> inst_id alice
   \<and> list_all (\<lambda>f. f = field_name profile) (required_fields profile)
   \<and> fst (descriptor_get django profile alice_again
             (snd (snd (descriptor_get django profile alice world0))))
       = [CallSuperGet alice_again]
   \<and> fst (snd (descriptor_get django profile alice_again
                  (snd (snd (descriptor_get django profile alice world0)))))
       = Inr \<lparr>obj_id = 2, obj_row = \<lparr>row_pk = 2, columns = [(str ''user'', 3)]\<rparr>\<rparr>"
proof -
  have h1: "filter (matches [(field_name profile, pk alice)]) (table world0) = []"
    by (simp add: profile_def alice_def world0_def matches_def str_def)
  have h2: "cache world0 (inst_id alice) = None" "cache world0 (inst_id alice_again) = None"
    by (simp_all add: world0_def)
  have h3: "pk alice_again = pk alice" "inst_id alice_again \<noteq> inst_id alice"
    by (simp_all add: alice_def alice_again_def)
  have h4: "list_all (\<lambda>f. f = field_name profile) (required_fields profile)"
    by (simp add: profile_def)
  have n: "new_row profile alice world0 = \<lparr>row_pk = 2, columns = [(str ''user'', 3)]\<rparr>"
    "Suc (Suc (next_obj_id world0)) = 2"
    by (simp_all add: new_row_def profile_def alice_def world0_def)
  from second_instance_finds_the_record [OF h1 h2 h3 h4]
  have "fst (descriptor_get django profile alice_again
               (snd (snd (descriptor_get django profile alice world0))))
          = [CallSuperGet alice_again]
        \<and> fst (snd (descriptor_get django profile alice_again
                       (snd (snd (descriptor_get django profile alice world0)))))
          = Inr \<lparr>obj_id = 2, obj_row = \<lparr>row_pk = 2, columns = [(str ''user'', 3)]\<rparr>\<rparr>"
    unfolding Let_def n by blast
  with h1 h2 h3 h4 show ?thesis by blast
qed

end
